theory Spec2Isabelle
  imports Main
begin

section \<open>Common vocabulary of the front end\<close>

text \<open>
  The front end is a set of React components. A handler is modelled as a function from the
  component's props and state (and the answers of the environment it asks: a browser
  dialog, an HTTP response) to the list of effects it causes, in the order of the source.
\<close>

subsection \<open>Numbers in template strings\<close>

definition digits :: string where
  "digits = ''0123456789''"

text \<open>
  The text of a number inside a template literal such as \<^verbatim>\<open>`/users/${id}`\<close>: the decimal
  digits, least significant first onto an accumulator, with a sign in front.
\<close>

fun decimal_digits :: "nat \<Rightarrow> string \<Rightarrow> string" where
  "decimal_digits n acc =
     (let acc' = (digits ! (n mod 10)) # acc
      in if n div 10 = 0 then acc' else decimal_digits (n div 10) acc')"

declare decimal_digits.simps [simp del]

definition number_text :: "int \<Rightarrow> string" where
  "number_text i =
     (if 0 \<le> i then decimal_digits (nat i) [] else CHR ''-'' # decimal_digits (nat (- i)) [])"

subsection \<open>Values read from JSON objects\<close>

text \<open>
  The rows of the rules table and the bodies of requests are typed \<^verbatim>\<open>any\<close>: an object is a
  map from property names to values, and reading a property that is absent gives
  \<^verbatim>\<open>undefined\<close> (\<open>None\<close>).
\<close>

datatype json = JNull | JBool bool | JNum int | JStr string

type_synonym js_object = "string \<Rightarrow> json option"

fun truthy :: "json option \<Rightarrow> bool" where
  "truthy None = False"
| "truthy (Some JNull) = False"
| "truthy (Some (JBool b)) = b"
| "truthy (Some (JNum n)) = (n \<noteq> 0)"
| "truthy (Some (JStr s)) = (s \<noteq> [])"

text \<open>\<^verbatim>\<open>a || b\<close>\<close>

definition js_or :: "json option \<Rightarrow> json option \<Rightarrow> json option" where
  "js_or a b = (if truthy a then a else b)"

text \<open>The text of a value inside a template literal.\<close>

fun template_text :: "json option \<Rightarrow> string" where
  "template_text None = ''undefined''"
| "template_text (Some JNull) = ''null''"
| "template_text (Some (JBool b)) = (if b then ''true'' else ''false'')"
| "template_text (Some (JNum n)) = number_text n"
| "template_text (Some (JStr s)) = s"

text \<open>\<^verbatim>\<open>toUpperCase\<close>, on the ASCII letters (the actions are ASCII words).\<close>

definition upper_char :: "char \<Rightarrow> char" where
  "upper_char c =
     (case map_of (zip ''abcdefghijklmnopqrstuvwxyz'' ''ABCDEFGHIJKLMNOPQRSTUVWXYZ'') c of
        Some u \<Rightarrow> u
      | None \<Rightarrow> c)"

definition toUpperCase :: "string \<Rightarrow> string" where
  "toUpperCase s = map upper_char s"

datatype js_error = TypeError

subsection \<open>Requests sent through the axios instance of services/api\<close>

datatype http_method = GET | POST | PUT | DELETE

text \<open>
  A request: the method, the URL below the instance's base URL, and the properties of
  the body in the order the call site writes them (empty when there is no body).
\<close>

record request =
  verb :: http_method
  url :: string
  body :: "(string \<times> json) list"

datatype effect =
    Toast_error string
  | Toast_success string
  | Confirm string
  | Http request
  | Invalidate string

section \<open>Users page\<close>

text \<open>The \<^verbatim>\<open>User\<close> interface of the auth store; \<^verbatim>\<open>id\<close> is written \<open>user_id\<close>.\<close>

record user =
  user_id :: int
  username :: string
  email :: string
  role :: string
  full_name :: "string option"

text \<open>\<^verbatim>\<open>usersApi.delete: (id: number) => api.delete(`/users/${id}`)\<close>\<close>

definition usersApi_delete :: "int \<Rightarrow> request" where
  "usersApi_delete i = \<lparr>verb = DELETE, url = ''/users/'' @ number_text i, body = []\<rparr>"

text \<open>\<^verbatim>\<open>deleteUserMutation.mutate(userId)\<close> runs the mutation function, which issues the request.\<close>

definition deleteUserMutation_mutate :: "int \<Rightarrow> effect list" where
  "deleteUserMutation_mutate userId = [Http (usersApi_delete userId)]"

text \<open>
  \<^verbatim>\<open>user.id === currentUser?.id\<close>: \<^verbatim>\<open>currentUser\<close> is \<^verbatim>\<open>User | null\<close>; with \<^verbatim>\<open>null\<close> the right-hand
  side is \<^verbatim>\<open>undefined\<close>, which no number equals.
\<close>

definition is_self :: "user option \<Rightarrow> user \<Rightarrow> bool" where
  "is_self currentUser u =
     (case currentUser of None \<Rightarrow> False | Some cu \<Rightarrow> user_id u = user_id cu)"

text \<open>
  \<^verbatim>\<open>handleDelete(user)\<close>. The second argument is the answer of the browser's \<^verbatim>\<open>confirm\<close>
  dialog, which is asked only on the second branch.
\<close>

definition handleDelete :: "user option \<Rightarrow> bool \<Rightarrow> user \<Rightarrow> effect list" where
  "handleDelete currentUser confirmed u =
     (if is_self currentUser u then [Toast_error ''You cannot delete your own account'']
      else Confirm (''Are you sure you want to delete user '' @ [CHR 0x22] @ username u
                    @ [CHR 0x22] @ ''?'')
           # (if confirmed then deleteUserMutation_mutate (user_id u) else []))"

text \<open>The \<^verbatim>\<open>disabled\<close> attribute of the row's delete button.\<close>

definition delete_button_disabled :: "user option \<Rightarrow> bool \<Rightarrow> user \<Rightarrow> bool" where
  "delete_button_disabled currentUser isPending u = (is_self currentUser u \<or> isPending)"

text \<open>A click on the row's delete button: a disabled button does not run its handler.\<close>

definition click_delete :: "user option \<Rightarrow> bool \<Rightarrow> bool \<Rightarrow> user \<Rightarrow> effect list" where
  "click_delete currentUser isPending confirmed u =
     (if delete_button_disabled currentUser isPending u then []
      else handleDelete currentUser confirmed u)"

fun is_http :: "effect \<Rightarrow> bool" where
  "is_http (Http r) = True"
| "is_http e = False"

definition admin_row :: user where
  "admin_row = \<lparr>user_id = 1, username = ''admin'', email = ''admin@example.com'',
                 role = ''admin'', full_name = None\<rparr>"

section \<open>Application routes (App.tsx)\<close>

datatype page = Login | Dashboard | Firewall | Network | Ports | Docker | Users | Audit

text \<open>
  What a component renders: a page, \<^verbatim>\<open><Navigate to=... replace />\<close>, the layout around its
  children, or nothing (a \<^verbatim>\<open><Routes>\<close> none of whose routes matches renders \<^verbatim>\<open>null\<close>).
\<close>

datatype element =
    Page page
  | Navigate string bool
  | Layout element
  | Nothing

definition ProtectedRoute :: "bool \<Rightarrow> element \<Rightarrow> element" where
  "ProtectedRoute isAuthenticated children =
     (if \<not> isAuthenticated then Navigate ''/login'' True else children)"

text \<open>
  \<^verbatim>\<open><Routes>\<close> renders the element of the route that matches the location. Path matching
  belongs to react-router, which is not part of the repository: it is the parameter
  \<open>matches pattern pathname\<close>. react-router ranks a static path above the splat \<^verbatim>\<open>/*\<close>; in
  both route tables of \<^verbatim>\<open>App\<close> the source order agrees with that ranking, so the first
  matching entry is the one rendered.
\<close>

type_synonym matcher = "string \<Rightarrow> string \<Rightarrow> bool"

definition Routes :: "matcher \<Rightarrow> (string \<times> element) list \<Rightarrow> string \<Rightarrow> element" where
  "Routes matches table pathname =
     (case find (\<lambda>(pattern, el). matches pattern pathname) table of
        None \<Rightarrow> Nothing
      | Some (pattern, el) \<Rightarrow> el)"

definition inner_routes :: "(string \<times> element) list" where
  "inner_routes =
     [(''/'', Page Dashboard), (''/firewall'', Page Firewall), (''/network'', Page Network),
      (''/ports'', Page Ports), (''/docker'', Page Docker), (''/users'', Page Users),
      (''/audit'', Page Audit)]"

definition App :: "matcher \<Rightarrow> bool \<Rightarrow> string \<Rightarrow> element" where
  "App matches isAuthenticated pathname =
     Routes matches
       [(''/login'', Page Login),
        (''/*'', ProtectedRoute isAuthenticated (Layout (Routes matches inner_routes pathname)))]
       pathname"

text \<open>
  A matcher for concrete runs: a pattern matches itself, the splat matches every path.
  (react-router also accepts another letter case and a trailing slash; the concrete runs
  below use the paths as the route table writes them.)
\<close>

definition simple_matches :: matcher where
  "simple_matches pattern pathname = (pattern = ''/*'' \<or> pattern = pathname)"

text \<open>
  The paths of the routes nested in the layout, in the order of the source, and what it
  means for a location to request one of them: the path matches the location and no
  path before it does.
\<close>

definition route_paths :: "string list" where
  "route_paths =
     [''/'', ''/firewall'', ''/network'', ''/ports'', ''/docker'', ''/users'', ''/audit'']"

definition requests :: "matcher \<Rightarrow> string \<Rightarrow> string \<Rightarrow> bool" where
  "requests matches path pathname =
     (matches path pathname
      \<and> list_all (\<lambda>q. \<not> matches q pathname) (takeWhile (\<lambda>q. q \<noteq> path) route_paths))"

section \<open>Auth store (stores/authStore.ts) and the axios instance (services/api)\<close>

record auth_state =
  token :: "string option"
  user :: "user option"
  isAuthenticated :: bool

text \<open>
  What \<^verbatim>\<open>login\<close> can touch: the zustand state, its persisted copy (\<^verbatim>\<open>localStorage\<close> item
  \<^verbatim>\<open>auth-storage\<close>, written by the \<^verbatim>\<open>persist\<close> middleware on every \<^verbatim>\<open>set\<close>; \<^verbatim>\<open>partialize\<close> keeps
  exactly the three data fields), the default \<^verbatim>\<open>Authorization\<close> header of the axios instance,
  the browser location, the toasts shown, and the requests sent with the \<^verbatim>\<open>Authorization\<close>
  header each one carried.
\<close>

record world =
  store :: auth_state
  persisted :: "auth_state option"
  default_authorization :: "string option"
  pathname :: string
  href_assigned :: "string option"
  toasts :: "string list"
  sent :: "(request \<times> string option) list"

text \<open>\<^verbatim>\<open>String.prototype.includes\<close>\<close>

fun str_includes :: "string \<Rightarrow> string \<Rightarrow> bool" where
  "str_includes [] sub = (sub = [])"
| "str_includes (c # cs) sub = (take (length sub) (c # cs) = sub \<or> str_includes cs sub)"

text \<open>
  The outcome of a request: a response with its data, or a rejection with
  \<^verbatim>\<open>error.response?.status\<close> (\<open>None\<close> when there is no response: network error, timeout).
\<close>

datatype 'a response = Response 'a | Failure "nat option"

fun is_failure :: "'a response \<Rightarrow> bool" where
  "is_failure (Failure st) = True"
| "is_failure (Response d) = False"

text \<open>
  The request interceptor: when the persisted state holds a token, the request carries
  it, whatever header the call site set.
\<close>

definition request_interceptor :: "world \<Rightarrow> string option \<Rightarrow> string option" where
  "request_interceptor w authorization =
     (case persisted w of
        None \<Rightarrow> authorization
      | Some st \<Rightarrow> (case token st of
                     None \<Rightarrow> authorization
                   | Some t \<Rightarrow> (if t = [] then authorization else Some (''Bearer '' @ t))))"

text \<open>
  Sending a request: the call-site header, else the instance's default, then the
  interceptor.
\<close>

definition send :: "request \<Rightarrow> string option \<Rightarrow> world \<Rightarrow> world" where
  "send r authorization w =
     w\<lparr>sent := sent w @
          [(r,
            request_interceptor w
              (case authorization of None \<Rightarrow> default_authorization w | Some a \<Rightarrow> Some a))]\<rparr>"

text \<open>The response interceptor's error branch; the error is then rejected to the caller.\<close>

definition response_error :: "nat option \<Rightarrow> world \<Rightarrow> world" where
  "response_error status w =
     (if status = Some 401 then
        (if \<not> str_includes (pathname w) ''/login'' then
           w\<lparr>persisted := None, href_assigned := Some ''/login'',
             toasts := toasts w @ [''Session expired. Please login again.'']\<rparr>
         else w)
      else if status = Some 403 then w\<lparr>toasts := toasts w @ [''Access denied'']\<rparr>
      else if (case status of None \<Rightarrow> False | Some n \<Rightarrow> n \<ge> 500) then
        w\<lparr>toasts := toasts w @ [''Server error. Please try again later.'']\<rparr>
      else w)"

text \<open>\<^verbatim>\<open>set\<close> of the store, through the \<^verbatim>\<open>persist\<close> middleware.\<close>

definition set_state :: "auth_state \<Rightarrow> world \<Rightarrow> world" where
  "set_state st w = w\<lparr>store := st, persisted := Some st\<rparr>"

text \<open>
  \<^verbatim>\<open>login(username, password)\<close>. The two responses are the server's answers to
  \<^verbatim>\<open>POST /auth/login\<close> (its data's \<^verbatim>\<open>access_token\<close>) and \<^verbatim>\<open>GET /auth/me\<close>; the second is
  asked only when the first succeeded. An \<^verbatim>\<open>await\<close> of a rejected request throws, which ends
  \<^verbatim>\<open>login\<close>: the result is \<open>Inl\<close> of the error's status.
\<close>

definition login :: "string \<Rightarrow> string \<Rightarrow> string response \<Rightarrow> user response \<Rightarrow> world
                     \<Rightarrow> (nat option + unit) \<times> world" where
  "login usern passw login_response me_response w =
     (let w1 = send \<lparr>verb = POST, url = ''/auth/login'',
                      body = [(''username'', JStr usern), (''password'', JStr passw)]\<rparr> None w in
      case login_response of
        Failure st \<Rightarrow> (Inl st, response_error st w1)
      | Response access_token \<Rightarrow>
          (let w2 = w1\<lparr>default_authorization := Some (''Bearer '' @ access_token)\<rparr>;
               w3 = send \<lparr>verb = GET, url = ''/auth/me'', body = []\<rparr>
                      (Some (''Bearer '' @ access_token)) w2
           in case me_response of
                Failure st \<Rightarrow> (Inl st, response_error st w3)
              | Response user_data \<Rightarrow>
                  (Inr (),
                   set_state \<lparr>token = Some access_token, user = Some user_data,
                              isAuthenticated = True\<rparr> w3)))"

text \<open>\<^verbatim>\<open>logout\<close>\<close>

definition logout :: "world \<Rightarrow> world" where
  "logout w =
     set_state \<lparr>token = None, user = None, isAuthenticated = False\<rparr>
       (w\<lparr>default_authorization := None\<rparr>)"

definition initial_world :: world where
  "initial_world =
     \<lparr>store = \<lparr>token = None, user = None, isAuthenticated = False\<rparr>, persisted = None,
      default_authorization = None, pathname = ''/login'', href_assigned = None,
      toasts = [], sent = []\<rparr>"

section \<open>Ports page\<close>

text \<open>The \<^verbatim>\<open>PortInfo\<close> interface; an optional field that is absent is \<open>None\<close>.\<close>

record PortInfo =
  port :: int
  protocol :: string
  address :: "string option"
  ip :: "string option"
  process :: "string option"
  program :: "string option"
  pid :: "int option"
  interface :: "string option"
  is_public :: "bool option"
  state :: "string option"

text \<open>
  The test written out twice in the page, in the filter of \<^verbatim>\<open>stats.public\<close> and in the class
  of the address cell:
  \<^verbatim>\<open>p.address === '0.0.0.0' || p.address === '::' || p.address === '*' || p.is_public\<close>.
  An absent \<^verbatim>\<open>is_public\<close> is \<^verbatim>\<open>undefined\<close>, which is falsy.
\<close>

definition shown_public :: "PortInfo \<Rightarrow> bool" where
  "shown_public p =
     (address p = Some ''0.0.0.0'' \<or> address p = Some ''::'' \<or> address p = Some ''*''
      \<or> is_public p = Some True)"

record port_stats =
  total :: nat
  tcp :: nat
  udp :: nat
  public :: nat

text \<open>
  \<^verbatim>\<open>stats\<close>; \<^verbatim>\<open>listeningPorts\<close> is \<^verbatim>\<open>undefined\<close> (\<open>None\<close>) until the query has data, and
  \<^verbatim>\<open>listeningPorts?.filter(...).length || 0\<close> is then \<open>0\<close>.
\<close>

definition stats :: "PortInfo list option \<Rightarrow> port_stats" where
  "stats listeningPorts =
     (case listeningPorts of
        None \<Rightarrow> \<lparr>total = 0, tcp = 0, udp = 0, public = 0\<rparr>
      | Some ps \<Rightarrow>
          \<lparr>total = length ps,
           tcp = length (filter (\<lambda>p. protocol p = ''tcp'') ps),
           udp = length (filter (\<lambda>p. protocol p = ''udp'') ps),
           public = length (filter shown_public ps)\<rparr>)"

text \<open>The address cell of the list view: its class and its text.\<close>

definition address_cell :: "PortInfo \<Rightarrow> string \<times> string" where
  "address_cell p =
     (if shown_public p then ''text-yellow-400'' else ''text-dark-300'',
      case address p of
        Some a \<Rightarrow> (if a \<noteq> [] then a
                   else (case ip p of Some i \<Rightarrow> (if i \<noteq> [] then i else ''*'') | None \<Rightarrow> ''*''))
      | None \<Rightarrow> (case ip p of Some i \<Rightarrow> (if i \<noteq> [] then i else ''*'') | None \<Rightarrow> ''*''))"

definition port_entry :: "int \<Rightarrow> string \<Rightarrow> bool option \<Rightarrow> PortInfo" where
  "port_entry n a flag =
     \<lparr>port = n, protocol = ''tcp'', address = Some a, ip = None, process = None,
      program = None, pid = None, interface = None, is_public = flag, state = None\<rparr>"

section \<open>Firewall page: the rows of the rules table\<close>

text \<open>
  One \<^verbatim>\<open><tr>\<close> of the rules table, cell by cell: the key and the id cell (\<^verbatim>\<open>rule.id\<close>), the
  class and the text of the action badge, the direction, port, from and protocol cells,
  and the argument the delete button passes to \<^verbatim>\<open>deleteRuleMutation.mutate\<close>.
\<close>

record rule_row =
  id_cell :: "json option"
  badge_class :: string
  action_text :: "json option"
  direction_cell :: "json option"
  port_cell :: "json option"
  from_cell :: "json option"
  protocol_cell :: "json option"
  delete_arg :: "json option"

definition badge :: "json option \<Rightarrow> string" where
  "badge action =
     (if action = Some (JStr ''allow'') then ''badge-success''
      else if action = Some (JStr ''deny'') then ''badge-danger''
      else if action = Some (JStr ''reject'') then ''badge-warning''
      else ''badge-info'')"

text \<open>
  \<^verbatim>\<open>rule.action?.toUpperCase()\<close>: \<^verbatim>\<open>undefined\<close> for an absent or \<^verbatim>\<open>null\<close> action, a
  \<^verbatim>\<open>TypeError\<close> for a number or a boolean, which have no such method.
\<close>

fun action_upper :: "json option \<Rightarrow> js_error + json option" where
  "action_upper None = Inr None"
| "action_upper (Some JNull) = Inr None"
| "action_upper (Some (JStr s)) = Inr (Some (JStr (toUpperCase s)))"
| "action_upper (Some v) = Inl TypeError"

definition render_row :: "js_object \<Rightarrow> js_error + rule_row" where
  "render_row rule =
     (case action_upper (rule ''action'') of
        Inl e \<Rightarrow> Inl e
      | Inr txt \<Rightarrow>
          Inr \<lparr>id_cell = rule ''id'',
               badge_class = badge (rule ''action''),
               action_text = txt,
               direction_cell = js_or (rule ''direction'') (Some (JStr ''in'')),
               port_cell = js_or (rule ''port'')
                             (js_or (rule ''app'') (js_or (rule ''to'') (Some (JStr ''any'')))),
               from_cell = js_or (rule ''from'') (Some (JStr ''Anywhere'')),
               protocol_cell = js_or (rule ''protocol'') (Some (JStr ''any'')),
               delete_arg = rule ''id''\<rparr>)"

text \<open>The properties of a rule that \<open>render_row\<close> reads.\<close>

definition fields_read :: "string list" where
  "fields_read =
     [''id'', ''action'', ''direction'', ''port'', ''app'', ''to'', ''from'', ''protocol'']"

text \<open>
  A rule in the shape \<^verbatim>\<open>{id, action, direction, port, protocol, source, comment}\<close>, and the
  same rule with its source address under \<^verbatim>\<open>from\<close>.
\<close>

definition neutral_rule :: js_object where
  "neutral_rule =
     [''id'' \<mapsto> JNum 1, ''action'' \<mapsto> JStr ''allow'', ''direction'' \<mapsto> JStr ''in'',
      ''port'' \<mapsto> JNum 443, ''protocol'' \<mapsto> JStr ''tcp'', ''source'' \<mapsto> JStr ''10.0.0.0/8'',
      ''comment'' \<mapsto> JStr ''office'']"

definition from_rule :: js_object where
  "from_rule =
     [''id'' \<mapsto> JNum 1, ''action'' \<mapsto> JStr ''allow'', ''direction'' \<mapsto> JStr ''in'',
      ''port'' \<mapsto> JNum 443, ''protocol'' \<mapsto> JStr ''tcp'', ''from'' \<mapsto> JStr ''10.0.0.0/8'']"

section \<open>Firewall page: backends, controls and mutations\<close>

datatype FirewallBackend = ufw | iptables | firewalld | nftables

fun backend_name :: "FirewallBackend \<Rightarrow> string" where
  "backend_name ufw = ''ufw''"
| "backend_name iptables = ''iptables''"
| "backend_name firewalld = ''firewalld''"
| "backend_name nftables = ''nftables''"

subsection \<open>The entries of \<^verbatim>\<open>firewallApi\<close> that change a firewall\<close>

definition addUfwRule :: "(string \<times> json) list \<Rightarrow> request" where
  "addUfwRule rule = \<lparr>verb = POST, url = ''/firewall/ufw/rules'', body = rule\<rparr>"

definition deleteUfwRule :: "string \<Rightarrow> request" where
  "deleteUfwRule ruleId = \<lparr>verb = DELETE, url = ''/firewall/ufw/rules/'' @ ruleId, body = []\<rparr>"

definition enableUfw :: request where
  "enableUfw = \<lparr>verb = POST, url = ''/firewall/ufw/enable'', body = []\<rparr>"

definition disableUfw :: request where
  "disableUfw = \<lparr>verb = POST, url = ''/firewall/ufw/disable'', body = []\<rparr>"

definition addIptablesRule :: "(string \<times> json) list \<Rightarrow> request" where
  "addIptablesRule rule = \<lparr>verb = POST, url = ''/firewall/iptables/rules'', body = rule\<rparr>"

definition addFirewalldRule :: "(string \<times> json) list \<Rightarrow> request" where
  "addFirewalldRule rule = \<lparr>verb = POST, url = ''/firewall/firewalld/rules'', body = rule\<rparr>"

text \<open>
  The backend whose endpoint a URL is: the one whose name follows \<^verbatim>\<open>/firewall/\<close> as a path
  segment, if any.
\<close>

definition endpoint_backend :: "string \<Rightarrow> FirewallBackend option" where
  "endpoint_backend u =
     find (\<lambda>b. take (length (''/firewall/'' @ backend_name b @ ''/'')) u
                 = ''/firewall/'' @ backend_name b @ ''/'')
       [ufw, iptables, firewalld, nftables]"

subsection \<open>Query data and component state\<close>

text \<open>
  The data of \<^verbatim>\<open>/firewall/backends\<close> (\<^verbatim>\<open>available\<close>, \<^verbatim>\<open>preferred\<close>) and an entry of
  \<^verbatim>\<open>/firewall/status\<close> (\<^verbatim>\<open>backend\<close>, \<^verbatim>\<open>available\<close>, \<^verbatim>\<open>status.enabled\<close>), as far as the page reads
  them.
\<close>

record backends_info =
  available :: "string list option"
  preferred :: "string option"

record backend_status =
  st_backend :: string
  st_available :: bool
  st_enabled :: bool

record firewall_data =
  backends :: "backends_info option"
  status :: "backend_status list option"
  ufwRules :: "js_object list option"
  iptablesRules :: "js_object list option"
  rulesLoading :: bool

record firewall_state =
  selectedBackend :: FirewallBackend
  addRuleOpen :: bool

definition initial_state :: firewall_state where
  "initial_state = \<lparr>selectedBackend = ufw, addRuleOpen = False\<rparr>"

text \<open>\<^verbatim>\<open>Preferred: {backends?.preferred || 'None detected'}\<close>\<close>

definition preferred_text :: "backends_info option \<Rightarrow> string" where
  "preferred_text b =
     (case b of
        None \<Rightarrow> ''None detected''
      | Some i \<Rightarrow> (case preferred i of
                     None \<Rightarrow> ''None detected''
                   | Some n \<Rightarrow> (if n = [] then ''None detected'' else n)))"

text \<open>\<^verbatim>\<open>backends?.available?.includes(backend)\<close>; a backend button is disabled without it.\<close>

definition isAvailable :: "backends_info option \<Rightarrow> FirewallBackend \<Rightarrow> bool" where
  "isAvailable b k =
     (case b of
        None \<Rightarrow> False
      | Some i \<Rightarrow> (case available i of None \<Rightarrow> False | Some av \<Rightarrow> backend_name k \<in> set av))"

definition ufwStatus :: "firewall_data \<Rightarrow> backend_status option" where
  "ufwStatus d =
     (case status d of None \<Rightarrow> None | Some xs \<Rightarrow> find (\<lambda>e. st_backend e = ''ufw'') xs)"

text \<open>
  \<^verbatim>\<open>selectedBackend === 'ufw' && ufwStatus?.available\<close>: the card that holds the enable or
  disable button and the Add Rule button.
\<close>

definition controls_shown :: "firewall_data \<Rightarrow> firewall_state \<Rightarrow> bool" where
  "controls_shown d s =
     (selectedBackend s = ufw \<and> (case ufwStatus d of None \<Rightarrow> False | Some e \<Rightarrow> st_available e))"

definition ufw_enabled :: "firewall_data \<Rightarrow> bool" where
  "ufw_enabled d = (case ufwStatus d of None \<Rightarrow> False | Some e \<Rightarrow> st_enabled e)"

text \<open>\<^verbatim>\<open>const rules = selectedBackend === 'ufw' ? ufwRules : iptablesRules\<close>\<close>

definition rules :: "firewall_data \<Rightarrow> firewall_state \<Rightarrow> js_object list option" where
  "rules d s = (if selectedBackend s = ufw then ufwRules d else iptablesRules d)"

text \<open>The rows on screen: none while loading, else the rules (none when absent or empty).\<close>

definition rows_shown :: "firewall_data \<Rightarrow> firewall_state \<Rightarrow> js_object list" where
  "rows_shown d s =
     (if rulesLoading d then [] else (case rules d s of None \<Rightarrow> [] | Some rs \<Rightarrow> rs))"

subsection \<open>Mutations\<close>

definition enableMutation_mutate :: "effect list" where
  "enableMutation_mutate = [Http enableUfw]"

definition disableMutation_mutate :: "effect list" where
  "disableMutation_mutate = [Http disableUfw]"

text \<open>\<^verbatim>\<open>deleteRuleMutation.mutate(rule.id)\<close>: the id goes into the URL's template literal.\<close>

definition deleteRuleMutation_mutate :: "json option \<Rightarrow> effect list" where
  "deleteRuleMutation_mutate ruleId = [Http (deleteUfwRule (template_text ruleId))]"

definition addRuleMutation_mutate :: "(string \<times> json) list \<Rightarrow> effect list" where
  "addRuleMutation_mutate rule = [Http (addUfwRule rule)]"

text \<open>
  What \<^verbatim>\<open>deleteRuleMutation\<close> does when the response arrives: \<^verbatim>\<open>onSuccess\<close> or \<^verbatim>\<open>onError\<close>.
\<close>

definition deleteRuleMutation_settled :: "bool \<Rightarrow> effect list" where
  "deleteRuleMutation_settled ok =
     (if ok then [Toast_success ''Rule deleted'', Invalidate ''ufw-rules'']
      else [Toast_error ''Failed to delete rule''])"

subsection \<open>The Add Rule dialog\<close>

text \<open>The state of the form; the fields are \<^verbatim>\<open>action\<close>, \<^verbatim>\<open>direction\<close>, \<^verbatim>\<open>port\<close>, \<^verbatim>\<open>protocol\<close>,
  \<^verbatim>\<open>fromIp\<close> and \<^verbatim>\<open>comment\<close>.\<close>

record rule_form =
  form_action :: string
  form_direction :: string
  form_port :: string
  form_protocol :: string
  fromIp :: string
  form_comment :: string

text \<open>
  \<^verbatim>\<open>handleSubmit\<close> of \<^verbatim>\<open>AddRuleModal\<close>. The first argument is the \<^verbatim>\<open>backend\<close> prop, which the
  component binds as \<^verbatim>\<open>_backend\<close> and never reads. \<^verbatim>\<open>comment: comment || undefined\<close> leaves
  the property out of the body when the comment is empty.
\<close>

definition handleSubmit :: "FirewallBackend \<Rightarrow> rule_form \<Rightarrow> effect list" where
  "handleSubmit backend_prop f =
     (if form_port f = [] then [Toast_error ''Port is required'']
      else addRuleMutation_mutate
             ([(''action'', JStr (form_action f)), (''direction'', JStr (form_direction f)),
               (''port'', JStr (form_port f)), (''protocol'', JStr (form_protocol f)),
               (''from_ip'', JStr (if fromIp f = [] then ''any'' else fromIp f))]
              @ (if form_comment f = [] then [] else [(''comment'', JStr (form_comment f))])))"

subsection \<open>Events of the page\<close>

text \<open>
  What the user can do. \<open>control\<close> is what each control's handler does in the state where
  the control is rendered (a control that is not rendered or is disabled does nothing);
  no mutation is taken to be pending. While the Add Rule dialog is open its backdrop
  (\<^verbatim>\<open>fixed inset-0\<close>) covers the page: a click aimed at a control of the page lands outside
  the dialog's panel, which calls \<^verbatim>\<open>onClose\<close>.
\<close>

datatype event =
    Click_backend FirewallBackend
  | Click_enable
  | Click_disable
  | Click_add_rule
  | Click_delete nat
  | Submit rule_form
  | Close_dialog

fun control :: "firewall_data \<Rightarrow> firewall_state \<Rightarrow> event \<Rightarrow> firewall_state \<times> effect list" where
  "control d s (Click_backend k) =
     (if isAvailable (backends d) k then (s\<lparr>selectedBackend := k\<rparr>, []) else (s, []))"
| "control d s Click_enable =
     (if controls_shown d s \<and> \<not> ufw_enabled d then (s, enableMutation_mutate) else (s, []))"
| "control d s Click_disable =
     (if controls_shown d s \<and> ufw_enabled d then (s, disableMutation_mutate) else (s, []))"
| "control d s Click_add_rule =
     (if controls_shown d s then (s\<lparr>addRuleOpen := True\<rparr>, []) else (s, []))"
| "control d s (Click_delete i) =
     (if i < length (rows_shown d s)
      then (s, deleteRuleMutation_mutate ((rows_shown d s ! i) ''id''))
      else (s, []))"
| "control d s (Submit f) =
     (if addRuleOpen s then (s, handleSubmit (selectedBackend s) f) else (s, []))"
| "control d s Close_dialog = (s\<lparr>addRuleOpen := False\<rparr>, [])"

fun in_dialog :: "event \<Rightarrow> bool" where
  "in_dialog (Submit f) = True"
| "in_dialog Close_dialog = True"
| "in_dialog e = False"

definition step :: "firewall_data \<Rightarrow> firewall_state \<Rightarrow> event \<Rightarrow> firewall_state \<times> effect list" where
  "step d s e =
     (if addRuleOpen s \<and> \<not> in_dialog e then (s\<lparr>addRuleOpen := False\<rparr>, [])
      else control d s e)"

fun run :: "firewall_data \<Rightarrow> firewall_state \<Rightarrow> event list \<Rightarrow> firewall_state \<times> effect list" where
  "run d s [] = (s, [])"
| "run d s (e # es) =
     (case step d s e of (s', out) \<Rightarrow> (case run d s' es of (s'', out') \<Rightarrow> (s'', out @ out')))"

text \<open>A host with ufw and iptables, ufw enabled, one iptables rule listed.\<close>

definition two_backends :: firewall_data where
  "two_backends =
     \<lparr>backends = Some \<lparr>available = Some [''ufw'', ''iptables''], preferred = Some ''ufw''\<rparr>,
      status = Some [\<lparr>st_backend = ''ufw'', st_available = True, st_enabled = True\<rparr>],
      ufwRules = Some [],
      iptablesRules = Some [[''id'' \<mapsto> JStr ''INPUT-1'', ''action'' \<mapsto> JStr ''accept'']],
      rulesLoading = False\<rparr>"

definition https_form :: rule_form where
  "https_form =
     \<lparr>form_action = ''allow'', form_direction = ''in'', form_port = ''443'',
      form_protocol = ''tcp'', fromIp = [], form_comment = []\<rparr>"

section \<open>The firewall core behind the API\<close>

text \<open>
  The server that answers \<^verbatim>\<open>/api/firewall/...\<close> (the backend probe, the four adapters and
  the command runner) is started by \<^verbatim>\<open>backend/start.sh\<close> from \<^verbatim>\<open>main.py\<close>, which is not among
  the sources at hand. The definitions of this section follow the specification's text.
\<close>

subsection \<open>Backend probe\<close>

text \<open>
  Modelled from the spec: the host as the backend probe sees it (the probe's code is
  missing). For each tool: is its binary present, does its version query succeed, is
  its service reachable.
\<close>

record host =
  binary_present :: "FirewallBackend \<Rightarrow> bool"
  version_query_ok :: "FirewallBackend \<Rightarrow> bool"
  service_reachable :: "FirewallBackend \<Rightarrow> bool"

text \<open>Modelled from the spec: the daemon-backed backends (firewalld); the probe is missing.\<close>

definition daemon_backed :: "FirewallBackend \<Rightarrow> bool" where
  "daemon_backed b = (b = firewalld)"

text \<open>
  Modelled from the spec: the checks of the missing probe on one backend, in order binary
  presence, version query and, for a daemon-backed backend, service reachability; a
  backend that fails any check is not available.
\<close>

definition usable :: "host \<Rightarrow> FirewallBackend \<Rightarrow> bool" where
  "usable h b =
     (if \<not> binary_present h b then False
      else if \<not> version_query_ok h b then False
      else if daemon_backed b then service_reachable h b
      else True)"

text \<open>
  Modelled from the spec: the fixed preference order of the missing probe,
  ufw > firewalld > nftables > iptables, as the list the probe walks and as a rank
  (0 is the highest priority).
\<close>

definition preference_order :: "FirewallBackend list" where
  "preference_order = [ufw, firewalld, nftables, iptables]"

fun rank :: "FirewallBackend \<Rightarrow> nat" where
  "rank ufw = 0"
| "rank firewalld = 1"
| "rank nftables = 2"
| "rank iptables = 3"

text \<open>
  Modelled from the spec: the result of the missing \<^verbatim>\<open>detectBackends()\<close>,
  \<^verbatim>\<open>{available: set<Backend>, preferred: Backend|none}\<close>.
\<close>

record detection =
  available_set :: "FirewallBackend set"
  preferred_backend :: "FirewallBackend option"

text \<open>
  Modelled from the spec: \<^verbatim>\<open>detectBackends()\<close>, whose code is missing. Every candidate is
  checked; \<^verbatim>\<open>preferred\<close> is the first usable backend in the preference order, or none.
\<close>

definition detectBackends :: "host \<Rightarrow> detection" where
  "detectBackends h =
     \<lparr>available_set = set (filter (usable h) preference_order),
      preferred_backend = find (usable h) preference_order\<rparr>"

text \<open>
  Modelled from the spec: the \<^verbatim>\<open>preferred\<close> attribute of a backend (true for the preferred
  one); the probe is missing.
\<close>

definition is_preferred :: "detection \<Rightarrow> FirewallBackend \<Rightarrow> bool" where
  "is_preferred r b = (preferred_backend r = Some b)"

text \<open>
  Modelled from the spec: the data of \<^verbatim>\<open>GET /firewall/backends\<close> for a probe result, in the
  properties the Firewall page reads (\<^verbatim>\<open>available\<close>, \<^verbatim>\<open>preferred\<close>); the route's code is
  missing.
\<close>

definition backends_data :: "detection \<Rightarrow> backends_info" where
  "backends_data r =
     \<lparr>available = Some (map backend_name (filter (\<lambda>b. b \<in> available_set r) preference_order)),
      preferred = map_option backend_name (preferred_backend r)\<rparr>"

subsection \<open>Rules, adapters and the command runner\<close>

text \<open>Modelled from the spec: the values of a rule's action (the rule model is missing).\<close>

datatype rule_action = Allow | Deny | Reject | Limit

text \<open>Modelled from the spec: the values of a rule's direction (the rule model is missing).\<close>

datatype rule_direction = In | Out

text \<open>Modelled from the spec: the values of a rule's protocol (the rule model is missing).\<close>

datatype rule_protocol = Tcp | Udp | Any

text \<open>
  Modelled from the spec: a rule's port, single, range or named application profile (the
  rule model is missing).
\<close>

datatype rule_port = Single nat | Range nat nat | Profile string

text \<open>
  Modelled from the spec: the backend-neutral \<^verbatim>\<open>FirewallRule\<close> of the missing rule model.
  The id is the backend's own, meaningful within one listing only.
\<close>

record FirewallRule =
  rule_id :: string
  rule_action :: rule_action
  rule_direction :: rule_direction
  rule_protocol :: rule_protocol
  rule_port :: rule_port
  sourceAddress :: string
  rule_comment :: "string option"

text \<open>Modelled from the spec: the status codes surfaced outward by the missing core.\<close>

datatype status_code =
    BackendUnavailable
  | UnsupportedOperation
  | InvalidRule
  | RuleNotFound
  | BackendTimeout
  | ParseError

text \<open>
  Modelled from the spec: what an adapter asks the command runner to run, as the
  operation it stands for (the spec gives no command lines; adapters and runner are
  missing).
\<close>

datatype native_command = List_rules | Add_rule FirewallRule | Delete_rule string

text \<open>
  Modelled from the spec: the state around the missing core. The probe result it has
  cached, each tool's rules in the tool's own evaluation order (the single source of
  truth, held by the kernel or daemon), and the invocations of the command runner so far.
\<close>

record core =
  probed :: detection
  table :: "FirewallBackend \<Rightarrow> FirewallRule list"
  invocations :: "(FirewallBackend \<times> native_command) list"

text \<open>
  Modelled from the spec: a backend renumbers its rules after any mutation; the ids of a
  listing are the positions 1, 2, ... (the tools are external).
\<close>

definition renumber :: "FirewallRule list \<Rightarrow> FirewallRule list" where
  "renumber rs = map (\<lambda>(i, r). r\<lparr>rule_id := number_text (int i)\<rparr>) (enumerate 1 rs)"

text \<open>Modelled from the spec: one call of the missing command runner, recorded.\<close>

definition invoke :: "FirewallBackend \<Rightarrow> native_command \<Rightarrow> core \<Rightarrow> core" where
  "invoke b cmd c = c\<lparr>invocations := invocations c @ [(b, cmd)]\<rparr>"

text \<open>
  Modelled from the spec: \<^verbatim>\<open>listRules()\<close> of the missing adapters: the tool's listing, in the
  tool's order, read live through the command runner.
\<close>

definition listRules :: "FirewallBackend \<Rightarrow> core \<Rightarrow> (status_code + FirewallRule list) \<times> core" where
  "listRules b c =
     (if b \<notin> available_set (probed c) then (Inl BackendUnavailable, c)
      else (Inr (table c b), invoke b List_rules c))"

text \<open>
  Modelled from the spec: \<^verbatim>\<open>addRule(rule)\<close> of the missing adapters. A backend that is not
  available fails with \<^verbatim>\<open>BackendUnavailable\<close> before anything is run; a rule that violates
  the backend's constraints (the parameter \<open>ok\<close>) fails with \<^verbatim>\<open>InvalidRule\<close> before dispatch;
  otherwise the native add command is run, the tool appends the rule and renumbers, and a
  re-list resolves the new rule's id.
\<close>

definition addRule :: "(FirewallBackend \<Rightarrow> FirewallRule \<Rightarrow> bool) \<Rightarrow> FirewallBackend \<Rightarrow> FirewallRule
                       \<Rightarrow> core \<Rightarrow> (status_code + FirewallRule) \<times> core" where
  "addRule ok b r c =
     (if b \<notin> available_set (probed c) then (Inl BackendUnavailable, c)
      else if \<not> ok b r then (Inl InvalidRule, c)
      else (let c1 = invoke b (Add_rule r) c;
                c2 = c1\<lparr>table := (table c1)(b := renumber (table c1 b @ [r]))\<rparr>
            in case listRules b c2 of
                 (Inl e, c3) \<Rightarrow> (Inl e, c3)
               | (Inr rs, c3) \<Rightarrow> (Inr (last rs), c3)))"

text \<open>
  Modelled from the spec: \<^verbatim>\<open>deleteRule(id)\<close> of the missing adapters. It re-lists
  immediately before the delete and fails with \<^verbatim>\<open>RuleNotFound\<close> when the listing shows no
  rule with that id; otherwise the native delete command is run, and the tool drops the
  rule and renumbers.
\<close>

definition deleteRule :: "FirewallBackend \<Rightarrow> string \<Rightarrow> core \<Rightarrow> (status_code + unit) \<times> core" where
  "deleteRule b i c =
     (case listRules b c of
        (Inl e, c1) \<Rightarrow> (Inl e, c1)
      | (Inr rs, c1) \<Rightarrow>
          (if i \<notin> set (map rule_id rs) then (Inl RuleNotFound, c1)
           else (let c2 = invoke b (Delete_rule i) c1
                 in (Inr (),
                     c2\<lparr>table := (table c2)(b := renumber (filter (\<lambda>r. rule_id r \<noteq> i) (table c2 b)))\<rparr>))))"

text \<open>Hosts and states for concrete runs.\<close>

definition bare_host :: host where
  "bare_host =
     \<lparr>binary_present = (\<lambda>b. False), version_query_ok = (\<lambda>b. False),
      service_reachable = (\<lambda>b. False)\<rparr>"

definition nft_iptables_host :: host where
  "nft_iptables_host =
     \<lparr>binary_present = (\<lambda>b. b \<noteq> ufw), version_query_ok = (\<lambda>b. b \<noteq> ufw),
      service_reachable = (\<lambda>b. False)\<rparr>"

definition web_rule :: FirewallRule where
  "web_rule =
     \<lparr>rule_id = [], rule_action = Allow, rule_direction = In, rule_protocol = Tcp,
      rule_port = Single 8080, sourceAddress = ''any'', rule_comment = None\<rparr>"

definition fresh_core :: "host \<Rightarrow> core" where
  "fresh_core h = \<lparr>probed = detectBackends h, table = (\<lambda>b. []), invocations = []\<rparr>"

definition any_rule :: "FirewallBackend \<Rightarrow> FirewallRule \<Rightarrow> bool" where
  "any_rule b r = True"

text \<open>The core of that host after one rule has been added to nftables.\<close>

definition one_rule_core :: core where
  "one_rule_core = snd (addRule any_rule nftables web_rule (fresh_core nft_iptables_host))"

section \<open>Properties of the Users page\<close>

lemma handleDelete_self:
  "is_self cur u \<Longrightarrow> handleDelete cur c u = [Toast_error ''You cannot delete your own account'']"
  by (simp add: handleDelete_def)

lemma handleDelete_http:
  "Http r \<in> set (handleDelete cur c u) \<Longrightarrow> \<not> is_self cur u \<and> c \<and> r = usersApi_delete (user_id u)"
  by (auto simp: handleDelete_def deleteUserMutation_mutate_def split: if_splits)

text \<open>
  C9. No delete request is issued for the logged-in user's own account: for a row whose id
  equals the current user's id, \<open>handleDelete\<close> only reports the error (whatever the
  confirm dialog would answer), none of its effects is an HTTP request, the row's delete
  button is disabled, and a click on it does nothing. Conversely every request
  \<open>handleDelete\<close> issues is the delete of a row that is not the current user's.
\<close>

theorem C9_no_self_delete:
  assumes "user_id u = user_id cu"
  shows "handleDelete (Some cu) confirmed u = [Toast_error ''You cannot delete your own account'']
       \<and> \<not> list_ex is_http (handleDelete (Some cu) confirmed u)
       \<and> delete_button_disabled (Some cu) isPending u
       \<and> click_delete (Some cu) isPending confirmed u = []"
proof -
  from assms have self: "is_self (Some cu) u"
    by (simp add: is_self_def)
  then have h: "handleDelete (Some cu) confirmed u = [Toast_error ''You cannot delete your own account'']"
    by (rule handleDelete_self)
  from self have d: "delete_button_disabled (Some cu) isPending u"
    by (simp add: delete_button_disabled_def)
  then have "click_delete (Some cu) isPending confirmed u = []"
    by (simp add: click_delete_def)
  with h d show ?thesis
    by simp
qed

theorem C9_no_self_delete_witness:
  "user_id admin_row = user_id admin_row
   \<and> handleDelete (Some admin_row) True admin_row
       = [Toast_error ''You cannot delete your own account'']
   \<and> \<not> list_ex is_http (handleDelete (Some admin_row) True admin_row)
   \<and> delete_button_disabled (Some admin_row) False admin_row
   \<and> click_delete (Some admin_row) False True admin_row = []"
  using C9_no_self_delete [of admin_row admin_row True False] by simp

section \<open>Properties of the application routes\<close>

lemma App_unfold:
  "App matches auth p =
     (if matches ''/login'' p then Page Login
      else if matches ''/*'' p then ProtectedRoute auth (Layout (Routes matches inner_routes p))
      else Nothing)"
  by (simp add: App_def Routes_def)

lemma inner_page:
  "requests matches path p \<Longrightarrow> (path, el) \<in> set inner_routes
   \<Longrightarrow> Routes matches inner_routes p = el"
  by (auto simp: requests_def route_paths_def Routes_def inner_routes_def)

lemma inner_nothing:
  "list_all (\<lambda>q. \<not> matches q p) route_paths \<Longrightarrow> Routes matches inner_routes p = Nothing"
  by (simp add: route_paths_def Routes_def inner_routes_def)

text \<open>
  C8. On every location that the \<^verbatim>\<open>/login\<close> route does not match (and the catch-all route
  \<^verbatim>\<open>/*\<close> does), an unauthenticated store makes the application render the redirect
  \<^verbatim>\<open><Navigate to="/login" replace />\<close> and not the page; an authenticated store makes it
  render the layout around the page the inner routes select for the location, which is
  the requested page: the dashboard at \<^verbatim>\<open>/\<close>, the firewall page at \<^verbatim>\<open>/firewall\<close>, the network
  page at \<^verbatim>\<open>/network\<close>, the ports page at \<^verbatim>\<open>/ports\<close>, the docker page at \<^verbatim>\<open>/docker\<close>, the
  users page at \<^verbatim>\<open>/users\<close>, the audit page at \<^verbatim>\<open>/audit\<close>, and an empty layout where no
  route path matches.
\<close>

theorem C8_protected_route:
  assumes "\<not> matches ''/login'' p" and "matches ''/*'' p"
  shows "App matches False p = Navigate ''/login'' True
       \<and> App matches True p = Layout (Routes matches inner_routes p)
       \<and> (requests matches ''/'' p \<longrightarrow> App matches True p = Layout (Page Dashboard))
       \<and> (requests matches ''/firewall'' p \<longrightarrow> App matches True p = Layout (Page Firewall))
       \<and> (requests matches ''/network'' p \<longrightarrow> App matches True p = Layout (Page Network))
       \<and> (requests matches ''/ports'' p \<longrightarrow> App matches True p = Layout (Page Ports))
       \<and> (requests matches ''/docker'' p \<longrightarrow> App matches True p = Layout (Page Docker))
       \<and> (requests matches ''/users'' p \<longrightarrow> App matches True p = Layout (Page Users))
       \<and> (requests matches ''/audit'' p \<longrightarrow> App matches True p = Layout (Page Audit))
       \<and> (list_all (\<lambda>q. \<not> matches q p) route_paths \<longrightarrow> App matches True p = Layout Nothing)"
proof -
  from assms have out: "App matches False p = Navigate ''/login'' True"
    by (simp add: App_unfold ProtectedRoute_def)
  from assms have inn: "App matches True p = Layout (Routes matches inner_routes p)"
    by (simp add: App_unfold ProtectedRoute_def)
  have pg: "App matches True p = Layout (Page g)"
    if "requests matches path p" and "(path, Page g) \<in> set inner_routes" for path g
    using inn inner_page [OF that] by simp
  have "requests matches ''/'' p \<longrightarrow> App matches True p = Layout (Page Dashboard)"
    using pg [of "''/''" Dashboard] by (simp add: inner_routes_def)
  moreover have "requests matches ''/firewall'' p \<longrightarrow> App matches True p = Layout (Page Firewall)"
    using pg [of "''/firewall''" Firewall] by (simp add: inner_routes_def)
  moreover have "requests matches ''/network'' p \<longrightarrow> App matches True p = Layout (Page Network)"
    using pg [of "''/network''" Network] by (simp add: inner_routes_def)
  moreover have "requests matches ''/ports'' p \<longrightarrow> App matches True p = Layout (Page Ports)"
    using pg [of "''/ports''" Ports] by (simp add: inner_routes_def)
  moreover have "requests matches ''/docker'' p \<longrightarrow> App matches True p = Layout (Page Docker)"
    using pg [of "''/docker''" Docker] by (simp add: inner_routes_def)
  moreover have "requests matches ''/users'' p \<longrightarrow> App matches True p = Layout (Page Users)"
    using pg [of "''/users''" Users] by (simp add: inner_routes_def)
  moreover have "requests matches ''/audit'' p \<longrightarrow> App matches True p = Layout (Page Audit)"
    using pg [of "''/audit''" Audit] by (simp add: inner_routes_def)
  moreover have "list_all (\<lambda>q. \<not> matches q p) route_paths \<longrightarrow> App matches True p = Layout Nothing"
    using inn inner_nothing [of matches p] by simp
  ultimately show ?thesis
    using out inn by blast
qed

theorem C8_protected_route_witness:
  "\<not> simple_matches ''/login'' ''/firewall'' \<and> simple_matches ''/*'' ''/firewall''
   \<and> App simple_matches False ''/firewall'' = Navigate ''/login'' True
   \<and> requests simple_matches ''/firewall'' ''/firewall''
   \<and> App simple_matches True ''/firewall'' = Layout (Page Firewall)
   \<and> \<not> simple_matches ''/login'' ''/users'' \<and> simple_matches ''/*'' ''/users''
   \<and> App simple_matches False ''/users'' = Navigate ''/login'' True
   \<and> requests simple_matches ''/users'' ''/users''
   \<and> App simple_matches True ''/users'' = Layout (Page Users)
   \<and> \<not> simple_matches ''/login'' ''/'' \<and> simple_matches ''/*'' ''/''
   \<and> requests simple_matches ''/'' ''/''
   \<and> App simple_matches True ''/'' = Layout (Page Dashboard)
   \<and> \<not> simple_matches ''/login'' ''/nowhere'' \<and> simple_matches ''/*'' ''/nowhere''
   \<and> list_all (\<lambda>q. \<not> simple_matches q ''/nowhere'') route_paths
   \<and> App simple_matches True ''/nowhere'' = Layout Nothing
   \<and> App simple_matches False ''/login'' = Page Login"
proof -
  have a: "\<not> simple_matches ''/login'' ''/firewall''" "\<not> simple_matches ''/login'' ''/users''"
    "\<not> simple_matches ''/login'' ''/''" "\<not> simple_matches ''/login'' ''/nowhere''"
    by (simp_all add: simple_matches_def)
  have b: "simple_matches ''/*'' ''/firewall''" "simple_matches ''/*'' ''/users''"
    "simple_matches ''/*'' ''/''" "simple_matches ''/*'' ''/nowhere''"
    by (simp_all add: simple_matches_def)
  have r: "requests simple_matches ''/firewall'' ''/firewall''"
    "requests simple_matches ''/users'' ''/users''" "requests simple_matches ''/'' ''/''"
    by (simp_all add: requests_def route_paths_def simple_matches_def)
  have n: "list_all (\<lambda>q. \<not> simple_matches q ''/nowhere'') route_paths"
    by (simp add: route_paths_def simple_matches_def)
  have l: "App simple_matches False ''/login'' = Page Login"
    by (simp add: App_unfold simple_matches_def)
  from C8_protected_route [of simple_matches "''/firewall''", OF a(1) b(1)] r(1)
  have f: "App simple_matches False ''/firewall'' = Navigate ''/login'' True
         \<and> App simple_matches True ''/firewall'' = Layout (Page Firewall)"
    by blast
  from C8_protected_route [of simple_matches "''/users''", OF a(2) b(2)] r(2)
  have u: "App simple_matches False ''/users'' = Navigate ''/login'' True
         \<and> App simple_matches True ''/users'' = Layout (Page Users)"
    by blast
  from C8_protected_route [of simple_matches "''/''", OF a(3) b(3)] r(3)
  have d: "App simple_matches True ''/'' = Layout (Page Dashboard)"
    by blast
  from C8_protected_route [of simple_matches "''/nowhere''", OF a(4) b(4)] n
  have e: "App simple_matches True ''/nowhere'' = Layout Nothing"
    by blast
  from a b r n l f u d e show ?thesis
    by blast
qed

section \<open>Properties of the auth store\<close>

lemma store_send [simp]: "store (send r a w) = store w"
  by (simp add: send_def)

lemma store_response_error [simp]: "store (response_error st w) = store w"
  by (simp add: response_error_def)

lemma persisted_send [simp]: "persisted (send r a w) = persisted w"
  by (simp add: send_def)

lemma pathname_send [simp]: "pathname (send r a w) = pathname w"
  by (simp add: send_def)

lemma persisted_response_error:
  "st \<noteq> Some 401 \<or> str_includes (pathname w) ''/login''
   \<Longrightarrow> persisted (response_error st w) = persisted w"
  by (auto simp: response_error_def)

text \<open>
  C10. \<open>login\<close> is atomic on the store: it succeeds exactly when both requests succeed, and
  then the store holds the new token, the user data and \<open>isAuthenticated = True\<close>; when
  either request fails it fails, and the store's token, user and \<open>isAuthenticated\<close> are
  what they were (so the store changes only after both requests have succeeded). On a
  location containing \<^verbatim>\<open>/login\<close>, such as the login page, the persisted copy of the store
  is unchanged by a failed login as well.
\<close>

theorem C10_login_atomic:
  "(\<forall>t u. r1 = Response t \<and> r2 = Response u \<longrightarrow>
        fst (login un pw r1 r2 w) = Inr ()
      \<and> store (snd (login un pw r1 r2 w))
          = \<lparr>token = Some t, user = Some u, isAuthenticated = True\<rparr>)
   \<and> (is_failure r1 \<or> is_failure r2 \<longrightarrow>
        isl (fst (login un pw r1 r2 w))
      \<and> store (snd (login un pw r1 r2 w)) = store w
      \<and> (str_includes (pathname w) ''/login'' \<longrightarrow>
           persisted (snd (login un pw r1 r2 w)) = persisted w))"
proof (cases r1)
  case (Failure st)
  then show ?thesis
    by (simp add: login_def Let_def persisted_response_error)
next
  case r1: (Response t)
  show ?thesis
  proof (cases r2)
    case (Failure st)
    with r1 show ?thesis
      by (simp add: login_def Let_def persisted_response_error)
  next
    case (Response u)
    with r1 show ?thesis
      by (simp add: login_def Let_def set_state_def)
  qed
qed

theorem C10_login_atomic_witness:
  "fst (login ''admin'' ''secret'' (Response ''tok'') (Response admin_row) initial_world) = Inr ()
   \<and> store (snd (login ''admin'' ''secret'' (Response ''tok'') (Response admin_row) initial_world))
       = \<lparr>token = Some ''tok'', user = Some admin_row, isAuthenticated = True\<rparr>
   \<and> is_failure (Failure (Some 401) :: user response)
   \<and> isl (fst (login ''admin'' ''wrong'' (Response ''tok'') (Failure (Some 401)) initial_world))
   \<and> store (snd (login ''admin'' ''wrong'' (Response ''tok'') (Failure (Some 401)) initial_world))
       = store initial_world
   \<and> str_includes (pathname initial_world) ''/login''
   \<and> persisted (snd (login ''admin'' ''wrong'' (Response ''tok'') (Failure (Some 401)) initial_world))
       = persisted initial_world"
proof -
  have inc: "str_includes (pathname initial_world) ''/login''"
    by (simp add: initial_world_def)
  have f: "is_failure (Failure (Some 401) :: user response)"
    by simp
  from C10_login_atomic [of "Response ''tok''" "Response admin_row" "''admin''" "''secret''" initial_world]
  have ok: "fst (login ''admin'' ''secret'' (Response ''tok'') (Response admin_row) initial_world) = Inr ()
     \<and> store (snd (login ''admin'' ''secret'' (Response ''tok'') (Response admin_row) initial_world))
         = \<lparr>token = Some ''tok'', user = Some admin_row, isAuthenticated = True\<rparr>"
    by simp
  from C10_login_atomic [of "Response ''tok''" "Failure (Some 401)" "''admin''" "''wrong''" initial_world] inc
  have bad: "isl (fst (login ''admin'' ''wrong'' (Response ''tok'') (Failure (Some 401)) initial_world))
     \<and> store (snd (login ''admin'' ''wrong'' (Response ''tok'') (Failure (Some 401)) initial_world))
         = store initial_world
     \<and> persisted (snd (login ''admin'' ''wrong'' (Response ''tok'') (Failure (Some 401)) initial_world))
         = persisted initial_world"
    by simp
  from ok bad inc f show ?thesis
    by simp
qed

section \<open>Properties of the Ports page\<close>

lemma public_count_card:
  "public (stats (Some ps)) = card {i. i < length ps \<and> shown_public (ps ! i)}"
  by (simp add: stats_def length_filter_conv_card)

text \<open>
  C2, as the code has it. An entry whose address is \<^verbatim>\<open>0.0.0.0\<close>, \<^verbatim>\<open>::\<close> or \<^verbatim>\<open>*\<close> is shown as
  public; an entry whose address is \<^verbatim>\<open>127.0.0.1\<close> is shown as not public when its
  \<^verbatim>\<open>is_public\<close> flag is not set (absent or false); and for every list of listening ports the
  public count is the number of entries whose address is one of the three wildcard forms
  or whose \<^verbatim>\<open>is_public\<close> flag is set.
\<close>

theorem C2_public_classification:
  "(address p \<in> {Some ''0.0.0.0'', Some ''::'', Some ''*''} \<longrightarrow> shown_public p)
   \<and> (address p = Some ''127.0.0.1'' \<and> is_public p \<noteq> Some True \<longrightarrow> \<not> shown_public p)
   \<and> public (stats (Some ps))
       = card {i. i < length ps
                 \<and> (address (ps ! i) \<in> {Some ''0.0.0.0'', Some ''::'', Some ''*''}
                    \<or> is_public (ps ! i) = Some True)}"
proof -
  have wild: "address p \<in> {Some ''0.0.0.0'', Some ''::'', Some ''*''} \<longrightarrow> shown_public p"
    by (auto simp: shown_public_def)
  have loop: "address p = Some ''127.0.0.1'' \<and> is_public p \<noteq> Some True \<longrightarrow> \<not> shown_public p"
    by (simp add: shown_public_def)
  have same: "shown_public q
      = (address q \<in> {Some ''0.0.0.0'', Some ''::'', Some ''*''} \<or> is_public q = Some True)" for q
    by (auto simp: shown_public_def)
  have "public (stats (Some ps)) = card {i. i < length ps \<and> shown_public (ps ! i)}"
    by (rule public_count_card)
  with wild loop show ?thesis
    by (simp add: same)
qed

theorem C2_public_classification_witness:
  "address (port_entry 5432 ''127.0.0.1'' None) = Some ''127.0.0.1''
   \<and> is_public (port_entry 5432 ''127.0.0.1'' None) \<noteq> Some True
   \<and> \<not> shown_public (port_entry 5432 ''127.0.0.1'' None)
   \<and> address (port_entry 80 ''0.0.0.0'' None) \<in> {Some ''0.0.0.0'', Some ''::'', Some ''*''}
   \<and> shown_public (port_entry 80 ''0.0.0.0'' None)
   \<and> public (stats (Some [port_entry 80 ''0.0.0.0'' None, port_entry 5432 ''127.0.0.1'' None,
                           port_entry 22 ''10.0.0.5'' (Some True)])) = 2"
proof -
  have a: "address (port_entry 5432 ''127.0.0.1'' None) = Some ''127.0.0.1''
           \<and> is_public (port_entry 5432 ''127.0.0.1'' None) \<noteq> Some True"
    by (simp add: port_entry_def)
  have b: "address (port_entry 80 ''0.0.0.0'' None) \<in> {Some ''0.0.0.0'', Some ''::'', Some ''*''}"
    by (simp add: port_entry_def)
  have c: "public (stats (Some [port_entry 80 ''0.0.0.0'' None, port_entry 5432 ''127.0.0.1'' None,
                                port_entry 22 ''10.0.0.5'' (Some True)])) = 2"
    by (simp add: stats_def shown_public_def port_entry_def)
  from C2_public_classification [of "port_entry 5432 ''127.0.0.1'' None" "[]"] a
  have "\<not> shown_public (port_entry 5432 ''127.0.0.1'' None)"
    by blast
  moreover from C2_public_classification [of "port_entry 80 ''0.0.0.0'' None" "[]"] b
  have "shown_public (port_entry 80 ''0.0.0.0'' None)"
    by blast
  ultimately show ?thesis
    using a b c by blast
qed

text \<open>
  The claim as written fails at a loopback entry that the server has flagged: an entry
  with address \<^verbatim>\<open>127.0.0.1\<close> and \<^verbatim>\<open>is_public: true\<close> is shown as public (yellow address
  cell) and counted as public.
\<close>

theorem C2_flagged_loopback_counterexample:
  "address (port_entry 5432 ''127.0.0.1'' (Some True)) = Some ''127.0.0.1''
   \<and> shown_public (port_entry 5432 ''127.0.0.1'' (Some True))
   \<and> address_cell (port_entry 5432 ''127.0.0.1'' (Some True)) = (''text-yellow-400'', ''127.0.0.1'')
   \<and> public (stats (Some [port_entry 5432 ''127.0.0.1'' (Some True)])) = 1"
  by (simp add: port_entry_def shown_public_def address_cell_def stats_def)

section \<open>Properties of the rules table\<close>

lemma render_row_from:
  "render_row r = Inr row
   \<Longrightarrow> from_cell row = (if truthy (r ''from'') then r ''from'' else Some (JStr ''Anywhere''))"
  by (auto simp: render_row_def js_or_def split: sum.splits)

lemma render_row_frame:
  assumes "\<forall>f \<in> set fields_read. r f = r' f"
  shows "render_row r = render_row r'"
proof -
  from assms have "r ''id'' = r' ''id''" "r ''action'' = r' ''action''"
    "r ''direction'' = r' ''direction''" "r ''port'' = r' ''port''" "r ''app'' = r' ''app''"
    "r ''to'' = r' ''to''" "r ''from'' = r' ''from''" "r ''protocol'' = r' ''protocol''"
    by (simp_all add: fields_read_def)
  then show ?thesis
    by (simp add: render_row_def split: sum.splits)
qed

text \<open>
  C7, as the code has it. A row of the rules table is computed from the rule's properties
  \<^verbatim>\<open>id\<close>, \<^verbatim>\<open>action\<close>, \<^verbatim>\<open>direction\<close>, \<^verbatim>\<open>port\<close>, \<^verbatim>\<open>app\<close>, \<^verbatim>\<open>to\<close>, \<^verbatim>\<open>from\<close> and \<^verbatim>\<open>protocol\<close> and from
  nothing else (two rules that agree on these render the same row, so \<^verbatim>\<open>source\<close> and
  \<^verbatim>\<open>comment\<close> are not read), and the source-address cell shows the property named
  \<^verbatim>\<open>from\<close>, or \<^verbatim>\<open>Anywhere\<close> when that is absent or empty.
\<close>

theorem C7_row_reads_from:
  "((\<forall>f \<in> set fields_read. r f = r' f) \<longrightarrow> render_row r = render_row r')
   \<and> (render_row r = Inr row \<longrightarrow>
        from_cell row = (if truthy (r ''from'') then r ''from'' else Some (JStr ''Anywhere'')))"
  using render_row_frame [of r r'] render_row_from [of r row] by blast

theorem C7_row_reads_from_witness:
  "list_all (\<lambda>f. from_rule f = (from_rule(''source'' \<mapsto> JStr ''192.168.1.0/24'')) f) fields_read
   \<and> render_row from_rule = render_row (from_rule(''source'' \<mapsto> JStr ''192.168.1.0/24''))
   \<and> render_row from_rule
       = Inr \<lparr>id_cell = Some (JNum 1), badge_class = ''badge-success'',
              action_text = Some (JStr ''ALLOW''), direction_cell = Some (JStr ''in''),
              port_cell = Some (JNum 443), from_cell = Some (JStr ''10.0.0.0/8''),
              protocol_cell = Some (JStr ''tcp''), delete_arg = Some (JNum 1)\<rparr>"
proof -
  have a: "list_all (\<lambda>f. from_rule f = (from_rule(''source'' \<mapsto> JStr ''192.168.1.0/24'')) f)
             fields_read"
    by (simp add: fields_read_def)
  have b: "render_row from_rule
       = Inr \<lparr>id_cell = Some (JNum 1), badge_class = ''badge-success'',
              action_text = Some (JStr ''ALLOW''), direction_cell = Some (JStr ''in''),
              port_cell = Some (JNum 443), from_cell = Some (JStr ''10.0.0.0/8''),
              protocol_cell = Some (JStr ''tcp''), delete_arg = Some (JNum 1)\<rparr>"
    by (simp add: render_row_def from_rule_def js_or_def badge_def toUpperCase_def upper_char_def)
  from a have "\<forall>f \<in> set fields_read.
      from_rule f = (from_rule(''source'' \<mapsto> JStr ''192.168.1.0/24'')) f"
    by (simp only: list_all_iff)
  with C7_row_reads_from [of from_rule "from_rule(''source'' \<mapsto> JStr ''192.168.1.0/24'')"]
  have "render_row from_rule = render_row (from_rule(''source'' \<mapsto> JStr ''192.168.1.0/24''))"
    by blast
  with a b show ?thesis
    by blast
qed

text \<open>
  The claim as written fails at a rule in the shape it gives: the source address under
  \<^verbatim>\<open>source\<close> reaches no cell of the row, and the source-address cell reads \<^verbatim>\<open>Anywhere\<close>.
\<close>

theorem C7_source_field_counterexample:
  "neutral_rule ''source'' = Some (JStr ''10.0.0.0/8'')
   \<and> render_row neutral_rule
       = Inr \<lparr>id_cell = Some (JNum 1), badge_class = ''badge-success'',
              action_text = Some (JStr ''ALLOW''), direction_cell = Some (JStr ''in''),
              port_cell = Some (JNum 443), from_cell = Some (JStr ''Anywhere''),
              protocol_cell = Some (JStr ''tcp''), delete_arg = Some (JNum 1)\<rparr>"
  by (simp add: render_row_def neutral_rule_def js_or_def badge_def toUpperCase_def upper_char_def)

section \<open>Where the Firewall page sends its mutations\<close>

lemma sibling_endpoints:
  "endpoint_backend (url (addIptablesRule r)) = Some iptables
   \<and> endpoint_backend (url (addFirewalldRule r)) = Some firewalld
   \<and> endpoint_backend (url (addUfwRule r)) = Some ufw"
  by (simp add: endpoint_backend_def addIptablesRule_def addFirewalldRule_def addUfwRule_def)

lemma control_requests_target_ufw:
  "Http r \<in> set (snd (control d s e)) \<Longrightarrow> endpoint_backend (url r) = Some ufw"
  by (cases e)
    (auto simp: endpoint_backend_def enableMutation_mutate_def disableMutation_mutate_def
      deleteRuleMutation_mutate_def addRuleMutation_mutate_def handleSubmit_def
      addUfwRule_def deleteUfwRule_def enableUfw_def disableUfw_def split: if_splits)

text \<open>
  C1, evaluated at the inputs where the code departs from it. With iptables selected,
  the delete button of the listed iptables rule \<^verbatim>\<open>INPUT-1\<close> sends
  \<^verbatim>\<open>DELETE /firewall/ufw/rules/INPUT-1\<close>: the request goes to the ufw endpoint while the
  selected backend is iptables. And \<^verbatim>\<open>AddRuleModal\<close>'s \<^verbatim>\<open>handleSubmit\<close> with the \<^verbatim>\<open>backend\<close> prop
  iptables, firewalld or nftables posts the rule to \<^verbatim>\<open>/firewall/ufw/rules\<close>.
\<close>

theorem C1_requests_reach_ufw_endpoint:
  "run two_backends initial_state [Click_backend iptables, Click_delete 0]
     = (\<lparr>selectedBackend = iptables, addRuleOpen = False\<rparr>,
        [Http \<lparr>verb = DELETE, url = ''/firewall/ufw/rules/INPUT-1'', body = []\<rparr>])
   \<and> endpoint_backend ''/firewall/ufw/rules/INPUT-1'' = Some ufw
   \<and> map (\<lambda>k. handleSubmit k https_form) [iptables, firewalld, nftables]
     = replicate 3
         [Http \<lparr>verb = POST, url = ''/firewall/ufw/rules'',
                 body = [(''action'', JStr ''allow''), (''direction'', JStr ''in''),
                         (''port'', JStr ''443''), (''protocol'', JStr ''tcp''),
                         (''from_ip'', JStr ''any'')]\<rparr>]
   \<and> endpoint_backend ''/firewall/ufw/rules'' = Some ufw"
  by (simp add: two_backends_def initial_state_def step_def isAvailable_def rows_shown_def
      rules_def deleteRuleMutation_mutate_def deleteUfwRule_def endpoint_backend_def
      handleSubmit_def https_form_def addRuleMutation_mutate_def addUfwRule_def
      numeral_3_eq_3)

section \<open>Properties of the backend probe\<close>

lemma backend_cases: "b = ufw \<or> b = firewalld \<or> b = nftables \<or> b = iptables"
  by (cases b) simp_all

lemma available_set_usable: "available_set (detectBackends h) = {b. usable h b}"
proof -
  have "b \<in> set preference_order" for b
    by (cases b) (simp_all add: preference_order_def)
  then show ?thesis
    by (auto simp: detectBackends_def)
qed

lemma preferred_backend_unfold:
  "preferred_backend (detectBackends h) =
     (if usable h ufw then Some ufw
      else if usable h firewalld then Some firewalld
      else if usable h nftables then Some nftables
      else if usable h iptables then Some iptables
      else None)"
  by (simp add: detectBackends_def preference_order_def)

lemma preferred_none_iff:
  "preferred_backend (detectBackends h) = None \<longleftrightarrow> available_set (detectBackends h) = {}"
proof
  assume "preferred_backend (detectBackends h) = None"
  then have "\<not> usable h b" for b
    using backend_cases [of b] by (auto simp: preferred_backend_unfold split: if_splits)
  then show "available_set (detectBackends h) = {}"
    by (simp add: available_set_usable)
next
  assume "available_set (detectBackends h) = {}"
  then have "\<not> usable h b" for b
    by (auto simp: available_set_usable)
  then show "preferred_backend (detectBackends h) = None"
    by (simp add: preferred_backend_unfold)
qed

lemma preferred_available:
  "preferred_backend (detectBackends h) = Some b \<Longrightarrow> b \<in> available_set (detectBackends h)"
  by (auto simp: preferred_backend_unfold available_set_usable split: if_splits)

lemma preferred_minimal_rank:
  assumes "preferred_backend (detectBackends h) = Some b"
    and "b' \<in> available_set (detectBackends h)"
  shows "rank b \<le> rank b'"
proof -
  from assms(2) have u: "usable h b'"
    by (simp add: available_set_usable)
  show ?thesis
  proof (cases b')
    case ufw
    with u assms(1) show ?thesis
      by (simp add: preferred_backend_unfold)
  next
    case iptables
    with assms(1) show ?thesis
      by (auto simp: preferred_backend_unfold split: if_splits)
  next
    case firewalld
    with u assms(1) show ?thesis
      by (auto simp: preferred_backend_unfold split: if_splits)
  next
    case nftables
    with u assms(1) show ?thesis
      by (auto simp: preferred_backend_unfold split: if_splits)
  qed
qed

lemma preferred_text_backends_data:
  "preferred_text (Some (backends_data r)) =
     (case preferred_backend r of None \<Rightarrow> ''None detected'' | Some b \<Rightarrow> backend_name b)"
proof (cases "preferred_backend r")
  case None
  then show ?thesis
    by (simp add: preferred_text_def backends_data_def)
next
  case (Some b)
  then show ?thesis
    by (cases b) (simp_all add: preferred_text_def backends_data_def)
qed

text \<open>
  C3. For every probe result: when a backend is preferred it is available and no available
  backend has a higher priority in the order ufw > firewalld > nftables > iptables; when
  some backend is available exactly one available backend is the preferred one; preferred
  is none exactly when no backend is available, and it is a result like any other, which
  the Firewall page shows as \<^verbatim>\<open>None detected\<close>.
\<close>

theorem C3_preferred_highest_priority:
  "(\<forall>b. preferred_backend (detectBackends h) = Some b \<longrightarrow>
        b \<in> available_set (detectBackends h)
      \<and> (\<forall>b' \<in> available_set (detectBackends h). rank b \<le> rank b'))
   \<and> (available_set (detectBackends h) \<noteq> {} \<longrightarrow>
        (\<exists>!b. b \<in> available_set (detectBackends h) \<and> is_preferred (detectBackends h) b))
   \<and> (preferred_backend (detectBackends h) = None \<longleftrightarrow> available_set (detectBackends h) = {})
   \<and> preferred_text (Some (backends_data (detectBackends h))) =
       (case preferred_backend (detectBackends h) of
          None \<Rightarrow> ''None detected''
        | Some b \<Rightarrow> backend_name b)"
proof -
  have one: "\<exists>!b. b \<in> available_set (detectBackends h) \<and> is_preferred (detectBackends h) b"
    if "available_set (detectBackends h) \<noteq> {}"
  proof -
    from that obtain b where b: "preferred_backend (detectBackends h) = Some b"
      using preferred_none_iff [of h] by auto
    then have "b \<in> available_set (detectBackends h) \<and> is_preferred (detectBackends h) b"
      by (simp add: preferred_available is_preferred_def)
    moreover have "b' = b" if "is_preferred (detectBackends h) b'" for b'
      using that b by (simp add: is_preferred_def)
    ultimately show ?thesis
      by blast
  qed
  show ?thesis
    using one preferred_available [of h] preferred_minimal_rank [of h]
      preferred_none_iff [of h] preferred_text_backends_data [of "detectBackends h"]
    by blast
qed

theorem C3_preferred_highest_priority_witness:
  "preferred_backend (detectBackends nft_iptables_host) = Some nftables
   \<and> available_set (detectBackends nft_iptables_host) = {nftables, iptables}
   \<and> rank nftables \<le> rank iptables
   \<and> is_preferred (detectBackends nft_iptables_host) nftables
   \<and> \<not> is_preferred (detectBackends nft_iptables_host) iptables
   \<and> preferred_text (Some (backends_data (detectBackends nft_iptables_host))) = ''nftables''"
proof -
  have p: "preferred_backend (detectBackends nft_iptables_host) = Some nftables"
    by (simp add: preferred_backend_unfold usable_def nft_iptables_host_def daemon_backed_def)
  have a: "available_set (detectBackends nft_iptables_host) = {nftables, iptables}"
    by (auto simp: detectBackends_def preference_order_def usable_def nft_iptables_host_def
        daemon_backed_def)
  from C3_preferred_highest_priority [of nft_iptables_host] p
  have "\<forall>b' \<in> available_set (detectBackends nft_iptables_host). rank nftables \<le> rank b'"
    and "preferred_text (Some (backends_data (detectBackends nft_iptables_host))) = ''nftables''"
    by simp_all
  with p a show ?thesis
    by (simp add: is_preferred_def)
qed

section \<open>Properties of the adapters\<close>

lemma listRules_result:
  "listRules b c = (Inr rs, c1) \<Longrightarrow> rs = table c b \<and> c1 = invoke b List_rules c"
  by (auto simp: listRules_def split: if_splits)

lemma length_renumber [simp]: "length (renumber rs) = length rs"
  by (simp add: renumber_def)

lemma deleteRule_listed:
  assumes "listRules b c = (Inr rs, c1)" and "i \<in> set (map rule_id rs)"
  shows "fst (deleteRule b i c) = Inr ()
       \<and> length (table (snd (deleteRule b i c)) b) < length (table c b)"
proof -
  from assms(1) have rs: "rs = table c b" and c1: "c1 = invoke b List_rules c"
    using listRules_result by blast+
  from assms(2) rs obtain r where "r \<in> set (table c b)" "\<not> rule_id r \<noteq> i"
    by auto
  then have "length (filter (\<lambda>r. rule_id r \<noteq> i) (table c b)) < length (table c b)"
    by (rule length_filter_less)
  with assms show ?thesis
    by (simp add: deleteRule_def rs c1 invoke_def)
qed

text \<open>
  C5. For every backend and id: when the listing taken immediately before the delete
  succeeds and shows no rule with that id, \<open>deleteRule\<close> fails with \<open>RuleNotFound\<close>, the
  rules of every backend are what they were, and the command runner has run the listing
  and no delete command.
\<close>

theorem C5_delete_unlisted_id:
  assumes "listRules b c = (Inr rs, c1)" and "i \<notin> set (map rule_id rs)"
  shows "fst (deleteRule b i c) = Inl RuleNotFound
       \<and> table (snd (deleteRule b i c)) = table c
       \<and> invocations (snd (deleteRule b i c)) = invocations c @ [(b, List_rules)]"
proof -
  from assms(1) have c1: "c1 = invoke b List_rules c"
    using listRules_result by blast
  from assms have "deleteRule b i c = (Inl RuleNotFound, c1)"
    by (simp add: deleteRule_def)
  with c1 show ?thesis
    by (simp add: invoke_def)
qed

lemma one_rule_core_eq:
  "one_rule_core =
     \<lparr>probed = detectBackends nft_iptables_host,
      table = (\<lambda>b. [])(nftables := [web_rule\<lparr>rule_id := ''1''\<rparr>]),
      invocations = [(nftables, Add_rule web_rule), (nftables, List_rules)]\<rparr>"
proof -
  have "nftables \<in> available_set (detectBackends nft_iptables_host)"
    by (simp add: available_set_usable usable_def nft_iptables_host_def daemon_backed_def)
  moreover have "number_text 1 = ''1''"
    by (simp add: number_text_def decimal_digits.simps digits_def)
  ultimately show ?thesis
    by (simp add: one_rule_core_def addRule_def listRules_def fresh_core_def any_rule_def
        invoke_def renumber_def Let_def)
qed

theorem C5_delete_unlisted_id_witness:
  "listRules nftables one_rule_core
     = (Inr [web_rule\<lparr>rule_id := ''1''\<rparr>], invoke nftables List_rules one_rule_core)
   \<and> ''2'' \<notin> set (map rule_id [web_rule\<lparr>rule_id := ''1''\<rparr>])
   \<and> fst (deleteRule nftables ''2'' one_rule_core) = Inl RuleNotFound
   \<and> table (snd (deleteRule nftables ''2'' one_rule_core)) nftables = [web_rule\<lparr>rule_id := ''1''\<rparr>]
   \<and> invocations (snd (deleteRule nftables ''2'' one_rule_core))
       = [(nftables, Add_rule web_rule), (nftables, List_rules), (nftables, List_rules)]"
proof -
  have av: "nftables \<in> available_set (probed one_rule_core)"
    by (simp add: one_rule_core_eq available_set_usable usable_def nft_iptables_host_def
        daemon_backed_def)
  then have l: "listRules nftables one_rule_core
     = (Inr [web_rule\<lparr>rule_id := ''1''\<rparr>], invoke nftables List_rules one_rule_core)"
    by (simp add: listRules_def) (simp add: one_rule_core_eq)
  have n: "''2'' \<notin> set (map rule_id [web_rule\<lparr>rule_id := ''1''\<rparr>])"
    by simp
  from C5_delete_unlisted_id [OF l n] l n show ?thesis
    by (simp add: one_rule_core_eq)
qed

text \<open>
  C6. On a host where none of the four binaries is present, \<open>detectBackends\<close> returns the
  empty available set and no preferred backend; in a core that holds this probe result
  every \<open>addRule\<close> fails with \<open>BackendUnavailable\<close> and leaves the core as it was, so the
  command runner has not been invoked (and the following call meets the same state). The
  Firewall page then shows \<^verbatim>\<open>None detected\<close> and disables every backend button.
\<close>

theorem C6_no_tool_installed:
  assumes "\<forall>b. \<not> binary_present h b"
  shows "detectBackends h = \<lparr>available_set = {}, preferred_backend = None\<rparr>
       \<and> (probed c = detectBackends h \<longrightarrow>
            addRule ok b r c = (Inl BackendUnavailable, c)
          \<and> invocations (snd (addRule ok b r c)) = invocations c)
       \<and> preferred_text (Some (backends_data (detectBackends h))) = ''None detected''
       \<and> \<not> isAvailable (Some (backends_data (detectBackends h))) k"
proof -
  from assms have nu: "\<not> usable h x" for x
    by (simp add: usable_def)
  then have d: "detectBackends h = \<lparr>available_set = {}, preferred_backend = None\<rparr>"
    by (simp add: detectBackends_def preference_order_def)
  have "addRule ok b r c = (Inl BackendUnavailable, c)" if "probed c = detectBackends h"
    using that d by (simp add: addRule_def)
  moreover have "preferred_text (Some (backends_data (detectBackends h))) = ''None detected''"
    by (simp add: d preferred_text_def backends_data_def)
  moreover have "\<not> isAvailable (Some (backends_data (detectBackends h))) k"
    by (simp add: d isAvailable_def backends_data_def)
  ultimately show ?thesis
    using d by simp
qed

theorem C6_no_tool_installed_witness:
  "list_all (\<lambda>b. \<not> binary_present bare_host b) [ufw, iptables, firewalld, nftables]
   \<and> detectBackends bare_host = \<lparr>available_set = {}, preferred_backend = None\<rparr>
   \<and> probed (fresh_core bare_host) = detectBackends bare_host
   \<and> addRule any_rule ufw web_rule (fresh_core bare_host)
       = (Inl BackendUnavailable, fresh_core bare_host)
   \<and> invocations (snd (addRule any_rule ufw web_rule (fresh_core bare_host))) = []
   \<and> preferred_text (Some (backends_data (detectBackends bare_host))) = ''None detected''
   \<and> \<not> isAvailable (Some (backends_data (detectBackends bare_host))) ufw"
proof -
  have a: "\<forall>b. \<not> binary_present bare_host b"
    by (simp add: bare_host_def)
  have p: "probed (fresh_core bare_host) = detectBackends bare_host"
    by (simp add: fresh_core_def)
  have i: "invocations (fresh_core bare_host) = []"
    by (simp add: fresh_core_def)
  have l: "list_all (\<lambda>b. \<not> binary_present bare_host b) [ufw, iptables, firewalld, nftables]"
    by (simp add: bare_host_def)
  note main = C6_no_tool_installed [OF a, of "fresh_core bare_host" any_rule ufw web_rule ufw]
  from main have d: "detectBackends bare_host = \<lparr>available_set = {}, preferred_backend = None\<rparr>"
    by (rule conjunct1)
  from main p have r: "addRule any_rule ufw web_rule (fresh_core bare_host)
       = (Inl BackendUnavailable, fresh_core bare_host)"
    by blast
  then have n: "invocations (snd (addRule any_rule ufw web_rule (fresh_core bare_host))) = []"
    using i by (simp only: snd_conv)
  from main have t: "preferred_text (Some (backends_data (detectBackends bare_host))) = ''None detected''
      \<and> \<not> isAvailable (Some (backends_data (detectBackends bare_host))) ufw"
    by blast
  from l d p r n t show ?thesis
    by blast
qed

end
